theory Spec2Isabelle
  imports Main
begin

section \<open>The file converter of \<^verbatim>\<open>src/main.py\<close>\<close>

text \<open>
  The program is one function, \<^verbatim>\<open>convert_file\<close>, and the \<^verbatim>\<open>main\<close> that calls it.
  \<^verbatim>\<open>convert_file\<close> computes nothing by itself: it asks the file system whether the input
  is a file, asks \<^verbatim>\<open>mimetypes\<close> for a type, resolves two paths, starts a child process and
  reads its exit code; \<^verbatim>\<open>main\<close> first hands the command line to \<^verbatim>\<open>argparse\<close>.
  The model therefore takes the world as a parameter (the record
  \<open>env\<close>) and keeps what the function does to the world as explicit state: the log
  records it emits and the calls it makes to \<^verbatim>\<open>subprocess\<close>.

  Conventions.
  \<^item> A Python \<^verbatim>\<open>str\<close> is a \<open>string\<close>, read as its UTF-8 encoding; a \<^verbatim>\<open>bytes\<close> value is
    a \<open>string\<close> too, one \<open>char\<close> per byte. \<^verbatim>\<open>bytes.decode()\<close> is then the identity on
    the well-formed UTF-8 sequences and raises on the others.
  \<^item> Paths are POSIX paths, as \<^verbatim>\<open>pathlib.PurePosixPath\<close> reads them.
  \<^item> An exception is a value of \<open>pyexn\<close>, and a call that can raise returns
    \<open>pyexn + 'a\<close>. The operations called here raise exceptions of class \<^verbatim>\<open>Exception\<close>
    (\<^verbatim>\<open>OSError\<close> and its subclass \<^verbatim>\<open>FileNotFoundError\<close>, \<^verbatim>\<open>RuntimeError\<close>,
    \<^verbatim>\<open>UnicodeDecodeError\<close>); the two constructors are the two classes the handlers of
    \<^verbatim>\<open>convert_file\<close> tell apart. The argument is \<^verbatim>\<open>str(e)\<close>. Signals delivered to the
    interpreter while it runs (\<^verbatim>\<open>KeyboardInterrupt\<close>) are not part of this sequential model.
\<close>

subsection \<open>Exceptions, log records, calls\<close>

datatype pyexn = FileNotFoundError string | Exception string

datatype level = DEBUG | INFO | ERROR

datatype event = Popen "string list" | Communicate

text \<open>
  The object \<^verbatim>\<open>subprocess.Popen\<close> returns: what \<^verbatim>\<open>communicate()\<close> yields (or raises) and the
  \<^verbatim>\<open>returncode\<close> the object holds once \<^verbatim>\<open>communicate()\<close> has returned.
\<close>

record process =
  communicate :: "pyexn + (string \<times> string)"
  returncode :: int

text \<open>
  The world: \<^verbatim>\<open>Path(p).is_file()\<close>, \<^verbatim>\<open>mimetypes.guess_type(p)[0]\<close>,
  \<^verbatim>\<open>str(Path(p).resolve())\<close> and \<^verbatim>\<open>subprocess.Popen(command, ...)\<close>. Each of them can
  raise: \<^verbatim>\<open>guess_type\<close> reads its argument as a URL and raises \<^verbatim>\<open>ValueError\<close> on a
  malformed one, \<^verbatim>\<open>resolve()\<close> raises on a loop of symbolic links, \<^verbatim>\<open>Popen\<close> raises when
  the tool cannot be started.
\<close>

record env =
  is_file :: "string \<Rightarrow> pyexn + bool"
  guess_type :: "string \<Rightarrow> pyexn + string option"
  resolve :: "string \<Rightarrow> pyexn + string"
  popen :: "string list \<Rightarrow> pyexn + process"

text \<open>
  What a run leaves behind: the log records in order (level and message; the time stamp of
  the format string and the traceback \<^verbatim>\<open>logging.exception\<close> appends are left out) and the
  calls made to \<^verbatim>\<open>subprocess\<close>, as a spy around \<^verbatim>\<open>Popen\<close> would record them.
\<close>

record run =
  log :: "(level \<times> string) list"
  trace :: "event list"

definition logging :: "level \<Rightarrow> string \<Rightarrow> run \<Rightarrow> run" where
  "logging l m s = s\<lparr>log := log s @ [(l, m)]\<rparr>"

definition call :: "event \<Rightarrow> run \<Rightarrow> run" where
  "call e s = s\<lparr>trace := trace s @ [e]\<rparr>"

definition start :: run where
  "start = \<lparr>log = [], trace = []\<rparr>"

subsection \<open>The library functions that are pure\<close>

text \<open>\<^verbatim>\<open>s.split(sep)\<close> for a one-character separator.\<close>

fun split_on :: "char \<Rightarrow> string \<Rightarrow> string list" where
  "split_on sep [] = [[]]"
| "split_on sep (c # cs) =
     (if c = sep then [] # split_on sep cs
      else (case split_on sep cs of [] \<Rightarrow> [[c]] | x # xs \<Rightarrow> (c # x) # xs))"

text \<open>
  \<^verbatim>\<open>PurePosixPath(p).name\<close>: the last component of the path, where empty components and
  \<^verbatim>\<open>.\<close> components do not count; the empty string when there is none.
\<close>

definition path_name :: "string \<Rightarrow> string" where
  "path_name p =
     (case rev (filter (\<lambda>x. x \<noteq> [] \<and> x \<noteq> ''.'') (split_on CHR ''/'' p)) of
        [] \<Rightarrow> []
      | x # xs \<Rightarrow> x)"

text \<open>\<^verbatim>\<open>s.rfind(c)\<close>, with \<open>None\<close> for \<^verbatim>\<open>-1\<close>.\<close>

fun rfind :: "char \<Rightarrow> string \<Rightarrow> nat option" where
  "rfind c [] = None"
| "rfind c (x # xs) =
     (case rfind c xs of
        Some i \<Rightarrow> Some (Suc i)
      | None \<Rightarrow> if x = c then Some 0 else None)"

text \<open>
  \<^verbatim>\<open>PurePosixPath(p).suffix\<close>:
  \<^verbatim>\<open>i = name.rfind('.'); return name[i:] if 0 < i < len(name) - 1 else ''\<close>.
\<close>

definition path_suffix :: "string \<Rightarrow> string" where
  "path_suffix p =
     (let name = path_name p in
      case rfind CHR ''.'' name of
        None \<Rightarrow> []
      | Some i \<Rightarrow> if 0 < i \<and> i + 1 < length name then drop i name else [])"

text \<open>\<^verbatim>\<open>s.lstrip('.')\<close>.\<close>

definition lstrip_dot :: "string \<Rightarrow> string" where
  "lstrip_dot s = dropWhile (\<lambda>c. c = CHR ''.'') s"

text \<open>\<^verbatim>\<open>sep.join(xs)\<close>.\<close>

fun join :: "string \<Rightarrow> string list \<Rightarrow> string" where
  "join sep [] = []"
| "join sep [x] = x"
| "join sep (x # y # ys) = x @ sep @ join sep (y # ys)"

text \<open>\<^verbatim>\<open>str(n)\<close> for an integer.\<close>

fun digits :: "nat \<Rightarrow> string" where
  "digits n =
     (if n < 10 then [''0123456789'' ! n]
      else digits (n div 10) @ [''0123456789'' ! (n mod 10)])"

definition str_int :: "int \<Rightarrow> string" where
  "str_int i = (if i < 0 then CHR ''-'' # digits (nat (- i)) else digits (nat i))"

text \<open>
  \<^verbatim>\<open>bytes.decode()\<close>, that is strict UTF-8. \<open>utf8\<close> reads the byte values: one byte below
  \<open>0x80\<close>; a lead byte \<open>0xC2..0xDF\<close> and one continuation byte; a lead byte
  \<open>0xE0..0xEF\<close> and two; a lead byte \<open>0xF0..0xF4\<close> and three; the first continuation
  byte is restricted after \<open>0xE0\<close>, \<open>0xED\<close>, \<open>0xF0\<close> and \<open>0xF4\<close>, which keeps out the
  overlong forms, the surrogates and what lies beyond \<open>U+10FFFF\<close>.
\<close>

definition cont :: "nat \<Rightarrow> bool" where
  "cont b = (128 \<le> b \<and> b \<le> 191)"

fun utf8 :: "nat list \<Rightarrow> bool" where
  "utf8 [] = True"
| "utf8 (b # bs) =
     (if b < 128 then utf8 bs
      else if 194 \<le> b \<and> b \<le> 223 then
        (case bs of c1 # r \<Rightarrow> cont c1 \<and> utf8 r | _ \<Rightarrow> False)
      else if 224 \<le> b \<and> b \<le> 239 then
        (case bs of
           c1 # c2 # r \<Rightarrow>
             (if b = 224 then 160 \<le> c1 \<and> c1 \<le> 191
              else if b = 237 then 128 \<le> c1 \<and> c1 \<le> 159
              else cont c1) \<and> cont c2 \<and> utf8 r
         | _ \<Rightarrow> False)
      else if 240 \<le> b \<and> b \<le> 244 then
        (case bs of
           c1 # c2 # c3 # r \<Rightarrow>
             (if b = 240 then 144 \<le> c1 \<and> c1 \<le> 191
              else if b = 244 then 128 \<le> c1 \<and> c1 \<le> 143
              else cont c1) \<and> cont c2 \<and> cont c3 \<and> utf8 r
         | _ \<Rightarrow> False)
      else False)"

text \<open>
  The message of the \<^verbatim>\<open>UnicodeDecodeError\<close> names the codec, the offending byte and its
  position; the model keeps the part that does not depend on the input.
\<close>

definition decode :: "string \<Rightarrow> pyexn + string" where
  "decode bs =
     (if utf8 (map of_char bs) then Inr bs
      else Inl (Exception ''utf-8 codec can't decode byte''))"

subsection \<open>\<^verbatim>\<open>convert_file\<close>\<close>

text \<open>\<^verbatim>\<open>not target_mime\<close>: the value is \<^verbatim>\<open>None\<close> or the empty string.\<close>

definition falsy :: "string option \<Rightarrow> bool" where
  "falsy t = (t = None \<or> t = Some [])"

text \<open>
  Lines 46 to 53: the target type is the one given, or else the one \<^verbatim>\<open>mimetypes\<close> guesses
  from the output file as it was passed. \<open>Inr None\<close> is the early \<^verbatim>\<open>return False\<close>,
  \<open>Inl\<close> an exception raised by \<^verbatim>\<open>guess_type\<close>.
\<close>

definition infer_target ::
  "env \<Rightarrow> string \<Rightarrow> string option \<Rightarrow> run \<Rightarrow> (pyexn + string option) \<times> run" where
  "infer_target e output_file target_mime s =
     (if falsy target_mime then
        (let output_extension = lstrip_dot (path_suffix output_file) in
         case guess_type e output_file of
           Inl x \<Rightarrow> (Inl x, s)
         | Inr target_mime \<Rightarrow>
             if falsy target_mime then
               (Inr None, logging ERROR
                  (''Could not infer target MIME type from output file extension: ''
                     @ output_extension @ ''.  Please specify --target_mime.'') s)
             else (Inr target_mime,
                   logging INFO (''Inferred target MIME type: '' @ the target_mime) s))
      else (Inr target_mime, s))"

text \<open>
  Lines 69 to 80: \<^verbatim>\<open>communicate()\<close>, then the branch on the return code. Each f-string
  is evaluated before its record is logged, so a \<^verbatim>\<open>decode()\<close> that raises leaves the
  record out.
\<close>

definition check_returncode :: "process \<Rightarrow> string \<Rightarrow> run \<Rightarrow> (pyexn + bool) \<times> run" where
  "check_returncode p output_file s =
     (case communicate p of
        Inl x \<Rightarrow> (Inl x, s)
      | Inr (stdout, stderr) \<Rightarrow>
          if returncode p \<noteq> 0 then
            (let s1 = logging ERROR
                        (''Conversion failed with return code '' @ str_int (returncode p)) s
             in case decode stdout of
                  Inl x \<Rightarrow> (Inl x, s1)
                | Inr out \<Rightarrow>
                    (let s2 = logging ERROR (''Stdout: '' @ out) s1
                     in case decode stderr of
                          Inl x \<Rightarrow> (Inl x, s2)
                        | Inr err \<Rightarrow> (Inr False, logging ERROR (''Stderr: '' @ err) s2)))
          else (Inr True,
                logging INFO (''Conversion successful. Output file: '' @ output_file) s))"

text \<open>The body of the \<^verbatim>\<open>try\<close>, lines 39 to 80.\<close>

definition convert_body ::
  "env \<Rightarrow> string \<Rightarrow> string \<Rightarrow> string option \<Rightarrow> string \<Rightarrow> (pyexn + bool) \<times> run" where
  "convert_body e input_file output_file target_mime unoconv_path =
     (case is_file e input_file of
        Inl x \<Rightarrow> (Inl x, start)
      | Inr False \<Rightarrow> (Inr False, logging ERROR (''Input file not found: '' @ input_file) start)
      | Inr True \<Rightarrow>
          (case infer_target e output_file target_mime start of
             (Inl x, s) \<Rightarrow> (Inl x, s)
           | (Inr None, s) \<Rightarrow> (Inr False, s)
           | (Inr (Some target), s) \<Rightarrow>
               (case resolve e input_file of
                  Inl x \<Rightarrow> (Inl x, s)
                | Inr input_abs \<Rightarrow>
                    (case resolve e output_file of
                       Inl x \<Rightarrow> (Inl x, s)
                     | Inr output_abs \<Rightarrow>
                         (let command =
                                [unoconv_path,
                                 ''-f'', lstrip_dot (path_suffix output_abs),
                                 ''-o'', output_abs,
                                 input_abs];
                              s1 = logging INFO (''Executing command: '' @ join '' '' command) s;
                              s2 = call (Popen command) s1
                          in case popen e command of
                               Inl x \<Rightarrow> (Inl x, s2)
                             | Inr p \<Rightarrow> check_returncode p output_abs (call Communicate s2))))))"

text \<open>
  The two handlers, lines 82 to 87: whatever the body raised becomes an error record and
  the result \<^verbatim>\<open>False\<close>.
\<close>

definition convert_file ::
  "env \<Rightarrow> string \<Rightarrow> string \<Rightarrow> string option \<Rightarrow> string \<Rightarrow> (pyexn + bool) \<times> run" where
  "convert_file e input_file output_file target_mime unoconv_path =
     (case convert_body e input_file output_file target_mime unoconv_path of
        (Inr b, s) \<Rightarrow> (Inr b, s)
      | (Inl (FileNotFoundError m), s) \<Rightarrow>
          (Inr False,
           logging ERROR
             (''Error: unoconv not found. Please ensure it is installed and in your PATH. '' @ m) s)
      | (Inl (Exception m), s) \<Rightarrow>
          (Inr False, logging ERROR (''An unexpected error occurred: '' @ m) s))"

subsection \<open>\<^verbatim>\<open>setup_argparse\<close> and \<^verbatim>\<open>main\<close>\<close>

text \<open>The namespace \<^verbatim>\<open>parse_args()\<close> returns.\<close>

record args =
  input_file :: string
  output_file :: string
  target_mime :: "string option"
  unoconv_path :: string
  debug :: bool





text \<open>
  What the process shows of a run of \<^verbatim>\<open>main\<close>: the lines printed, the exit status, the
  log and the calls. \<^verbatim>\<open>main\<close> has no handler and no \<^verbatim>\<open>sys.exit\<close>: a \<^verbatim>\<open>SystemExit\<close> of
  \<^verbatim>\<open>setup_argparse\<close> ends the run with its status, otherwise the run ends with status 0
  when \<^verbatim>\<open>main\<close> returns and with status 1 when an exception leaves it.
\<close>

record outcome =
  printed :: "string list"
  status :: int
  final :: run


subsection \<open>What the claims speak of\<close>

text \<open>The argument vectors handed to \<^verbatim>\<open>Popen\<close> during a run, in order.\<close>

definition commands :: "run \<Rightarrow> string list list" where
  "commands s = concat (map (\<lambda>ev. case ev of Popen c \<Rightarrow> [c] | Communicate \<Rightarrow> []) (trace s))"

text \<open>
  A target type is at hand: the caller gave a non-empty one, or \<^verbatim>\<open>mimetypes\<close> finds one
  for the output file.
\<close>

definition resolved_target :: "env \<Rightarrow> string \<Rightarrow> string option \<Rightarrow> bool" where
  "resolved_target e out t =
     (\<not> falsy t \<or> (case guess_type e out of Inl x \<Rightarrow> False | Inr g \<Rightarrow> \<not> falsy g))"

text \<open>The list \<^verbatim>\<open>command\<close> of lines 60 to 65, for the two resolved paths.\<close>

definition command_of :: "string \<Rightarrow> string \<Rightarrow> string \<Rightarrow> string list" where
  "command_of tool output_abs input_abs =
     [tool, ''-f'', lstrip_dot (path_suffix output_abs), ''-o'', output_abs, input_abs]"

text \<open>
  The child processes of a run: the calls to \<^verbatim>\<open>Popen\<close> that returned a process. A call
  that raised started none.
\<close>

definition spawned :: "env \<Rightarrow> run \<Rightarrow> string list list" where
  "spawned e s =
     filter (\<lambda>c. case popen e c of Inl x \<Rightarrow> False | Inr p \<Rightarrow> True) (commands s)"

subsection \<open>Concrete worlds\<close>

text \<open>
  A machine whose working directory is \<^verbatim>\<open>/work\<close>: the regular files in it, the type
  \<^verbatim>\<open>mimetypes\<close> guesses for a path, the symbolic links (\<^verbatim>\<open>resolve()\<close> follows them) and
  what starting a child process yields. \<open>exits\<close> is a child that runs to its end with the
  given exit code and the given bytes on its two streams.
\<close>

definition machine ::
  "string list \<Rightarrow> (string \<times> string) list \<Rightarrow> (string \<times> string) list \<Rightarrow>
   (pyexn + process) \<Rightarrow> env" where
  "machine files types links child =
     \<lparr>is_file = (\<lambda>p. Inr (p \<in> set files)),
      guess_type = (\<lambda>p. Inr (map_of types p)),
      resolve = (\<lambda>p. Inr (case map_of links p of Some q \<Rightarrow> q | None \<Rightarrow> ''/work/'' @ p)),
      popen = (\<lambda>c. child)\<rparr>"

definition exits :: "int \<Rightarrow> string \<Rightarrow> string \<Rightarrow> pyexn + process" where
  "exits code out err = Inr \<lparr>communicate = Inr (out, err), returncode = code\<rparr>"


section \<open>Properties\<close>

subsection \<open>The steps of a run\<close>

lemma trace_logging [simp]: "trace (logging l m s) = trace s"
  by (simp add: logging_def)

lemma log_logging [simp]: "log (logging l m s) = log s @ [(l, m)]"
  by (simp add: logging_def)

lemma trace_call [simp]: "trace (call ev s) = trace s @ [ev]"
  by (simp add: call_def)

lemma log_call [simp]: "log (call ev s) = log s"
  by (simp add: call_def)

lemma trace_start [simp]: "trace start = []"
  by (simp add: start_def)

lemma log_start [simp]: "log start = []"
  by (simp add: start_def)

lemma infer_target_given:
  "\<not> falsy t \<Longrightarrow> infer_target e out t s = (Inr t, s)"
  by (simp add: infer_target_def)

lemma infer_target_trace [simp]: "trace (snd (infer_target e out t s)) = trace s"
  by (simp add: infer_target_def Let_def split: sum.splits)

lemma infer_target_Some:
  "(\<exists>m. fst (infer_target e out t s) = Inr (Some m)) \<longleftrightarrow> resolved_target e out t"
  by (auto simp add: infer_target_def Let_def resolved_target_def falsy_def split: sum.splits)

lemma check_returncode_trace [simp]: "trace (snd (check_returncode p out s)) = trace s"
  by (simp add: check_returncode_def Let_def split: sum.splits prod.splits)


lemma body_spawn:
  assumes "is_file e inp = Inr True" and "resolved_target e out t"
    and "resolve e inp = Inr ia" and "resolve e out = Inr oa"
  shows "convert_body e inp out t u =
     (let s1 = logging INFO (''Executing command: '' @ join '' '' (command_of u oa ia))
                 (snd (infer_target e out t start));
          s2 = call (Popen (command_of u oa ia)) s1
      in case popen e (command_of u oa ia) of
           Inl x \<Rightarrow> (Inl x, s2)
         | Inr p \<Rightarrow> check_returncode p oa (call Communicate s2))"
proof -
  from assms(2) obtain m where "fst (infer_target e out t start) = Inr (Some m)"
    using infer_target_Some [of e out t start] by blast
  then obtain s where "infer_target e out t start = (Inr (Some m), s)"
    by (cases "infer_target e out t start") simp
  with assms show ?thesis
    by (simp add: convert_body_def command_of_def Let_def split: sum.splits)
qed


lemma convert_file_trace:
  "trace (snd (convert_file e inp out t u)) = trace (snd (convert_body e inp out t u))"
  by (simp add: convert_file_def split: prod.splits sum.splits pyexn.splits)


lemma body_silent:
  "\<not> (is_file e inp = Inr True \<and> resolved_target e out t \<and>
       (\<exists>ia. resolve e inp = Inr ia) \<and> (\<exists>oa. resolve e out = Inr oa)) \<Longrightarrow>
   trace (snd (convert_body e inp out t u)) = []"
  using infer_target_Some [of e out t start] infer_target_trace [of e out t start]
  by (cases "infer_target e out t start")
     (auto simp add: convert_body_def split: sum.splits bool.splits option.splits)

lemma body_calls:
  assumes "is_file e inp = Inr True" and "resolved_target e out t"
    and "resolve e inp = Inr ia" and "resolve e out = Inr oa"
  shows "trace (snd (convert_body e inp out t u)) =
     (case popen e (command_of u oa ia) of
        Inl x \<Rightarrow> [Popen (command_of u oa ia)]
      | Inr p \<Rightarrow> [Popen (command_of u oa ia), Communicate])"
  by (simp add: body_spawn [OF assms] Let_def split: sum.splits)

lemma file_commands_silent:
  "\<not> (is_file e inp = Inr True \<and> resolved_target e out t \<and>
       (\<exists>ia. resolve e inp = Inr ia) \<and> (\<exists>oa. resolve e out = Inr oa)) \<Longrightarrow>
   trace (snd (convert_file e inp out t u)) = []"
  using body_silent [of e inp out t u] by (simp add: convert_file_trace)

lemma file_calls:
  assumes "is_file e inp = Inr True" and "resolved_target e out t"
    and "resolve e inp = Inr ia" and "resolve e out = Inr oa"
  shows "trace (snd (convert_file e inp out t u)) =
     (case popen e (command_of u oa ia) of
        Inl x \<Rightarrow> [Popen (command_of u oa ia)]
      | Inr p \<Rightarrow> [Popen (command_of u oa ia), Communicate])"
  by (simp only: convert_file_trace body_calls [OF assms])

lemma file_commands:
  assumes "is_file e inp = Inr True" and "resolved_target e out t"
    and "resolve e inp = Inr ia" and "resolve e out = Inr oa"
  shows "commands (snd (convert_file e inp out t u)) = [command_of u oa ia]"
  by (simp add: commands_def file_calls [OF assms] split: sum.splits)

text \<open>The definitions a closed run is evaluated with.\<close>

lemmas run_defs = convert_file_def convert_body_def infer_target_def check_returncode_def
  decode_def machine_def exits_def resolved_target_def command_of_def falsy_def start_def
  logging_def call_def path_suffix_def path_name_def lstrip_dot_def str_int_def cont_def
  commands_def

subsection \<open>The argument vector\<close>

text \<open>
  Claim C1, as the code has it. For an existing input file and an output path for which
  \<^verbatim>\<open>mimetypes\<close> finds a type, whatever the explicit target, once both paths resolve
  \<^verbatim>\<open>Popen\<close> is called exactly once, with
  \<^verbatim>\<open>[unoconv_path, "-f", ext, "-o", output_abs, input_abs]\<close>, where \<open>ext\<close> is the suffix
  of the \<^emph>\<open>resolved\<close> output path with its leading dot removed: line 57 rebinds
  \<^verbatim>\<open>output_file\<close> to the resolved path before line 62 takes the suffix.
\<close>

theorem command_vector:
  assumes "is_file e inp = Inr True" and "guess_type e out = Inr (Some m)" and "m \<noteq> []"
    and "resolve e inp = Inr ia" and "resolve e out = Inr oa"
  shows "commands (snd (convert_file e inp out t u)) =
     [[u, ''-f'', lstrip_dot (path_suffix oa), ''-o'', oa, ia]]"
proof -
  from assms(2,3) have "resolved_target e out t"
    by (simp add: resolved_target_def falsy_def)
  from file_commands [OF assms(1) this assms(4,5)] show ?thesis
    by (simp add: command_of_def)
qed

text \<open>
  The scenario of the specification: \<^verbatim>\<open>report.odt\<close> to \<^verbatim>\<open>report.pdf\<close> in \<^verbatim>\<open>/work\<close>.
\<close>

theorem command_vector_witness:
  "is_file (machine [''report.odt''] [(''report.pdf'', ''application/pdf'')] [] (exits 0 [] []))
     ''report.odt'' = Inr True \<and>
   guess_type (machine [''report.odt''] [(''report.pdf'', ''application/pdf'')] [] (exits 0 [] []))
     ''report.pdf'' = Inr (Some ''application/pdf'') \<and>
   commands (snd (convert_file
       (machine [''report.odt''] [(''report.pdf'', ''application/pdf'')] [] (exits 0 [] []))
       ''report.odt'' ''report.pdf'' None ''unoconv'')) =
     [[''unoconv'', ''-f'', ''pdf'', ''-o'', ''/work/report.pdf'', ''/work/report.odt'']]"
proof -
  let ?w = "machine [''report.odt''] [(''report.pdf'', ''application/pdf'')] [] (exits 0 [] [])"
  have 1: "is_file ?w ''report.odt'' = Inr True" by (simp add: machine_def)
  have 2: "guess_type ?w ''report.pdf'' = Inr (Some ''application/pdf'')"
    by (simp add: machine_def)
  have 3: "''application/pdf'' \<noteq> []" by simp
  have 4: "resolve ?w ''report.odt'' = Inr ''/work/report.odt''" by (simp add: machine_def)
  have 5: "resolve ?w ''report.pdf'' = Inr ''/work/report.pdf''" by (simp add: machine_def)
  have 6: "lstrip_dot (path_suffix ''/work/report.pdf'') = ''pdf''"
    by (simp add: lstrip_dot_def path_suffix_def path_name_def)
  from command_vector [OF 1 2 3 4 5, of None "''unoconv''"] 1 2 6 show ?thesis by simp
qed

text \<open>
  Claim C1 as stated takes \<open>ext\<close> from the output path that was passed. That fails
  when \<^verbatim>\<open>resolve()\<close> changes the last component: here \<^verbatim>\<open>out.pdf\<close> is a symbolic link to
  \<^verbatim>\<open>/data/store/real.docx\<close>; the extension of the output path is \<^verbatim>\<open>pdf\<close>, the format
  handed to the tool is \<^verbatim>\<open>docx\<close>.
\<close>

theorem command_vector_counterexample:
  "is_file
     (machine [''in.odt''] [(''out.pdf'', ''application/pdf'')]
        [(''out.pdf'', ''/data/store/real.docx'')] (exits 0 [] []))
     ''in.odt'' = Inr True \<and>
   guess_type
     (machine [''in.odt''] [(''out.pdf'', ''application/pdf'')]
        [(''out.pdf'', ''/data/store/real.docx'')] (exits 0 [] []))
     ''out.pdf'' = Inr (Some ''application/pdf'') \<and>
   lstrip_dot (path_suffix ''out.pdf'') = ''pdf'' \<and>
   commands (snd (convert_file
       (machine [''in.odt''] [(''out.pdf'', ''application/pdf'')]
          [(''out.pdf'', ''/data/store/real.docx'')] (exits 0 [] []))
       ''in.odt'' ''out.pdf'' None ''unoconv'')) =
     [[''unoconv'', ''-f'', ''docx'', ''-o'', ''/data/store/real.docx'', ''/work/in.odt'']]"
  by (simp add: run_defs)

subsection \<open>The explicit target type\<close>

text \<open>
  Claim C2, as the code has it. Two calls that differ only in their non-empty explicit
  target type are the same run: the same result, the same log, the same calls. And every
  command handed to \<^verbatim>\<open>Popen\<close> carries after \<^verbatim>\<open>-f\<close> the suffix of the resolved output
  path, dot removed, never the target type.
\<close>

theorem explicit_target_ignored:
  assumes "t1 \<noteq> []" and "t2 \<noteq> []"
  shows "convert_file e inp out (Some t1) u = convert_file e inp out (Some t2) u \<and>
    (\<forall>c \<in> set (commands (snd (convert_file e inp out (Some t1) u))).
       \<exists>ia oa. resolve e inp = Inr ia \<and> resolve e out = Inr oa \<and>
         c = [u, ''-f'', lstrip_dot (path_suffix oa), ''-o'', oa, ia])"
proof
  from assms have "convert_body e inp out (Some t1) u = convert_body e inp out (Some t2) u"
    by (simp add: convert_body_def infer_target_given falsy_def split: sum.splits bool.splits)
  then show "convert_file e inp out (Some t1) u = convert_file e inp out (Some t2) u"
    by (simp add: convert_file_def)
next
  show "\<forall>c \<in> set (commands (snd (convert_file e inp out (Some t1) u))).
       \<exists>ia oa. resolve e inp = Inr ia \<and> resolve e out = Inr oa \<and>
         c = [u, ''-f'', lstrip_dot (path_suffix oa), ''-o'', oa, ia]"
  proof (cases "is_file e inp = Inr True \<and> resolved_target e out (Some t1) \<and>
       (\<exists>ia. resolve e inp = Inr ia) \<and> (\<exists>oa. resolve e out = Inr oa)")
    case True
    then obtain ia oa where r: "resolve e inp = Inr ia" "resolve e out = Inr oa" by blast
    from True r have "commands (snd (convert_file e inp out (Some t1) u)) = [command_of u oa ia]"
      by (simp add: file_commands)
    with r show ?thesis by (simp add: command_of_def)
  next
    case False
    then have "trace (snd (convert_file e inp out (Some t1) u)) = []"
      by (rule file_commands_silent)
    then show ?thesis by (simp add: commands_def)
  qed
qed

theorem explicit_target_ignored_witness:
  "''application/pdf'' \<noteq> [] \<and> ''image/png'' \<noteq> [] \<and>
   convert_file (machine [''report.odt''] [] [] (exits 0 [] []))
     ''report.odt'' ''report.pdf'' (Some ''application/pdf'') ''unoconv'' =
   convert_file (machine [''report.odt''] [] [] (exits 0 [] []))
     ''report.odt'' ''report.pdf'' (Some ''image/png'') ''unoconv'' \<and>
   commands (snd (convert_file (machine [''report.odt''] [] [] (exits 0 [] []))
     ''report.odt'' ''report.pdf'' (Some ''image/png'') ''unoconv'')) =
     [[''unoconv'', ''-f'', ''pdf'', ''-o'', ''/work/report.pdf'', ''/work/report.odt'']]"
proof -
  have 1: "''application/pdf'' \<noteq> []" and 2: "''image/png'' \<noteq> []" by simp_all
  have 3: "commands (snd (convert_file (machine [''report.odt''] [] [] (exits 0 [] []))
     ''report.odt'' ''report.pdf'' (Some ''image/png'') ''unoconv'')) =
     [[''unoconv'', ''-f'', ''pdf'', ''-o'', ''/work/report.pdf'', ''/work/report.odt'']]"
    by (simp add: run_defs)
  from explicit_target_ignored [OF 1 2, of "machine [''report.odt''] [] [] (exits 0 [] [])"
      "''report.odt''" "''report.pdf''" "''unoconv''"] 3
  show ?thesis by simp
qed

text \<open>
  Claim C2 as stated says the format flag is the extension of the output path. With the
  explicit target \<^verbatim>\<open>application/pdf\<close> and \<^verbatim>\<open>out.pdf\<close> a symbolic link to
  \<^verbatim>\<open>/var/spool/job7.odt\<close>, the flag is \<^verbatim>\<open>odt\<close>: neither the target nor the extension of the
  path that was passed.
\<close>

theorem explicit_target_counterexample:
  "lstrip_dot (path_suffix ''out.pdf'') = ''pdf'' \<and>
   commands (snd (convert_file
       (machine [''memo.docx''] [] [(''out.pdf'', ''/var/spool/job7.odt'')] (exits 0 [] []))
       ''memo.docx'' ''out.pdf'' (Some ''application/pdf'') ''unoconv'')) =
     [[''unoconv'', ''-f'', ''odt'', ''-o'', ''/var/spool/job7.odt'', ''/work/memo.docx'']]"
  by (simp add: run_defs)

subsection \<open>The exit code\<close>

text \<open>
  The result follows the exit code. When the child was started and \<^verbatim>\<open>communicate()\<close>
  returned, \<^verbatim>\<open>convert_file\<close> returns \<^verbatim>\<open>True\<close> exactly when the return code is zero,
  whatever the two streams hold; on a non-zero code it returns \<^verbatim>\<open>False\<close>, and when both
  streams are well-formed UTF-8 the log holds the record \<^verbatim>\<open>Stdout: ...\<close> and the record
  \<^verbatim>\<open>Stderr: ...\<close> with the decoded text as it is.
\<close>

theorem exit_code_decides:
  assumes "is_file e inp = Inr True" and "resolved_target e out t"
    and "resolve e inp = Inr ia" and "resolve e out = Inr oa"
    and "popen e (command_of u oa ia) = Inr p" and "communicate p = Inr (so, se)"
  shows "(fst (convert_file e inp out t u) = Inr True \<longleftrightarrow> returncode p = 0) \<and>
     (returncode p \<noteq> 0 \<longrightarrow> fst (convert_file e inp out t u) = Inr False) \<and>
     (returncode p \<noteq> 0 \<and> utf8 (map of_char so) \<and> utf8 (map of_char se) \<longrightarrow>
        (ERROR, ''Stdout: '' @ so) \<in> set (log (snd (convert_file e inp out t u))) \<and>
        (ERROR, ''Stderr: '' @ se) \<in> set (log (snd (convert_file e inp out t u))))"
proof -
  have "convert_body e inp out t u =
      check_returncode p oa
        (call Communicate (call (Popen (command_of u oa ia))
           (logging INFO (''Executing command: '' @ join '' '' (command_of u oa ia))
              (snd (infer_target e out t start)))))"
    by (simp add: body_spawn [OF assms(1-4)] assms(5) Let_def)
  with assms(6) show ?thesis
    by (simp add: convert_file_def check_returncode_def decode_def Let_def)
qed

theorem exit_code_decides_witness:
  "is_file (machine [''a.odt''] [(''a.pdf'', ''application/pdf'')] [] (exits 3 ''out text'' ''err text''))
     ''a.odt'' = Inr True \<and>
   popen (machine [''a.odt''] [(''a.pdf'', ''application/pdf'')] [] (exits 3 ''out text'' ''err text''))
     [''unoconv'', ''-f'', ''pdf'', ''-o'', ''/work/a.pdf'', ''/work/a.odt''] =
     Inr \<lparr>communicate = Inr (''out text'', ''err text''), returncode = 3\<rparr> \<and>
   fst (convert_file
     (machine [''a.odt''] [(''a.pdf'', ''application/pdf'')] [] (exits 3 ''out text'' ''err text''))
     ''a.odt'' ''a.pdf'' None ''unoconv'') = Inr False \<and>
   (ERROR, ''Stdout: out text'') \<in> set (log (snd (convert_file
     (machine [''a.odt''] [(''a.pdf'', ''application/pdf'')] [] (exits 3 ''out text'' ''err text''))
     ''a.odt'' ''a.pdf'' None ''unoconv''))) \<and>
   (ERROR, ''Stderr: err text'') \<in> set (log (snd (convert_file
     (machine [''a.odt''] [(''a.pdf'', ''application/pdf'')] [] (exits 3 ''out text'' ''err text''))
     ''a.odt'' ''a.pdf'' None ''unoconv'')))"
proof -
  let ?w = "machine [''a.odt''] [(''a.pdf'', ''application/pdf'')] [] (exits 3 ''out text'' ''err text'')"
  let ?p = "\<lparr>communicate = Inr (''out text'', ''err text''), returncode = 3\<rparr>"
  have 1: "is_file ?w ''a.odt'' = Inr True" by (simp add: machine_def)
  have 2: "resolved_target ?w ''a.pdf'' None" by (simp add: machine_def resolved_target_def falsy_def)
  have 3: "resolve ?w ''a.odt'' = Inr ''/work/a.odt''" by (simp add: machine_def)
  have 4: "resolve ?w ''a.pdf'' = Inr ''/work/a.pdf''" by (simp add: machine_def)
  have 5: "popen ?w (command_of ''unoconv'' ''/work/a.pdf'' ''/work/a.odt'') = Inr ?p"
    by (simp add: machine_def exits_def)
  have 6: "communicate ?p = Inr (''out text'', ''err text'')" by simp
  have 7: "command_of ''unoconv'' ''/work/a.pdf'' ''/work/a.odt'' =
      [''unoconv'', ''-f'', ''pdf'', ''-o'', ''/work/a.pdf'', ''/work/a.odt'']"
    by (simp add: command_of_def lstrip_dot_def path_suffix_def path_name_def)
  have 8: "utf8 (map of_char ''out text'')" "utf8 (map of_char ''err text'')" by simp_all
  from exit_code_decides [OF 1 2 3 4 5 6] 1 5 7 8 show ?thesis by simp
qed

text \<open>
  Claim C3: on any non-zero exit code the failure diagnostic includes the captured
  standard output and standard error. The code logs both (lines 75 and 76) but decodes them
  strictly. Here the child exits with code 1, its standard output is the single byte
  \<open>0xFF\<close> and its standard error is plain text: \<^verbatim>\<open>stdout.decode()\<close> raises inside the
  f-string of line 75, the second handler takes over, the result is still \<^verbatim>\<open>False\<close>, and
  the text of the standard error stream is in no record of the log.
\<close>

theorem undecodable_output_loses_streams:
  "decode ''Error: no office installation found'' = Inr ''Error: no office installation found'' \<and>
   convert_file
     (machine [''a.odt''] [(''a.pdf'', ''application/pdf'')] []
        (exits 1 [CHR 0xFF] ''Error: no office installation found''))
     ''a.odt'' ''a.pdf'' None ''unoconv'' =
   (Inr False,
    \<lparr>log = [(INFO, ''Inferred target MIME type: application/pdf''),
            (INFO, ''Executing command: unoconv -f pdf -o /work/a.pdf /work/a.odt''),
            (ERROR, ''Conversion failed with return code 1''),
            (ERROR, ''An unexpected error occurred: utf-8 codec can't decode byte'')],
     trace = [Popen [''unoconv'', ''-f'', ''pdf'', ''-o'', ''/work/a.pdf'', ''/work/a.odt''],
              Communicate]\<rparr>)"
  by (simp add: run_defs)

subsection \<open>Input validation\<close>






subsection \<open>The handlers\<close>

text \<open>
  Claim C6, as the code has it. When starting the tool raises, \<^verbatim>\<open>convert_file\<close> returns
  \<^verbatim>\<open>False\<close> and nothing is raised; \<^verbatim>\<open>Popen\<close> was called once and no child runs. The last
  record of the log names the missing tool exactly when the exception is
  \<^verbatim>\<open>FileNotFoundError\<close> (no file of that name or path exists); on any other exception of
  the start (\<^verbatim>\<open>PermissionError\<close> for a file that is not executable or a directory,
  \<^verbatim>\<open>NotADirectoryError\<close>, \<^verbatim>\<open>OSError\<close> for a file that is no program) the second handler
  writes the unexpected-error record. Both records end with the text of the exception.
\<close>

theorem spawn_failure_fails:
  assumes "is_file e inp = Inr True" and "resolved_target e out t"
    and "resolve e inp = Inr ia" and "resolve e out = Inr oa"
    and "popen e (command_of u oa ia) = Inl x"
  shows "fst (convert_file e inp out t u) = Inr False \<and>
     last (log (snd (convert_file e inp out t u))) =
       (ERROR,
        case x of
          FileNotFoundError m \<Rightarrow>
            ''Error: unoconv not found. Please ensure it is installed and in your PATH. '' @ m
        | Exception m \<Rightarrow> ''An unexpected error occurred: '' @ m) \<and>
     trace (snd (convert_file e inp out t u)) = [Popen (command_of u oa ia)] \<and>
     spawned e (snd (convert_file e inp out t u)) = []"
  by (cases x)
     (simp_all add: convert_file_def body_spawn [OF assms(1-4)] assms(5) Let_def
        spawned_def commands_def)

text \<open>The tool is not installed: \<^verbatim>\<open>Popen\<close> raises \<^verbatim>\<open>FileNotFoundError\<close>.\<close>

theorem spawn_failure_fails_witness:
  "is_file (machine [''a.odt''] [] []
      (Inl (FileNotFoundError ''[Errno 2] No such file or directory: unoconv'')))
     ''a.odt'' = Inr True \<and>
   popen (machine [''a.odt''] [] []
      (Inl (FileNotFoundError ''[Errno 2] No such file or directory: unoconv'')))
     [''unoconv'', ''-f'', ''pdf'', ''-o'', ''/work/a.pdf'', ''/work/a.odt''] =
     Inl (FileNotFoundError ''[Errno 2] No such file or directory: unoconv'') \<and>
   fst (convert_file (machine [''a.odt''] [] []
      (Inl (FileNotFoundError ''[Errno 2] No such file or directory: unoconv'')))
     ''a.odt'' ''a.pdf'' (Some ''application/pdf'') ''unoconv'') = Inr False \<and>
   last (log (snd (convert_file (machine [''a.odt''] [] []
      (Inl (FileNotFoundError ''[Errno 2] No such file or directory: unoconv'')))
     ''a.odt'' ''a.pdf'' (Some ''application/pdf'') ''unoconv''))) =
     (ERROR, ''Error: unoconv not found. Please ensure it is installed and in your PATH. [Errno 2] No such file or directory: unoconv'')"
proof -
  let ?x = "FileNotFoundError ''[Errno 2] No such file or directory: unoconv''"
  let ?w = "machine [''a.odt''] [] [] (Inl ?x)"
  have 1: "is_file ?w ''a.odt'' = Inr True" by (simp add: machine_def)
  have 2: "resolved_target ?w ''a.pdf'' (Some ''application/pdf'')"
    by (simp add: resolved_target_def falsy_def)
  have 3: "resolve ?w ''a.odt'' = Inr ''/work/a.odt''" by (simp add: machine_def)
  have 4: "resolve ?w ''a.pdf'' = Inr ''/work/a.pdf''" by (simp add: machine_def)
  have 5: "popen ?w (command_of ''unoconv'' ''/work/a.pdf'' ''/work/a.odt'') = Inl ?x"
    by (simp add: machine_def)
  have 6: "popen ?w [''unoconv'', ''-f'', ''pdf'', ''-o'', ''/work/a.pdf'', ''/work/a.odt''] = Inl ?x"
    by (simp add: machine_def)
  from spawn_failure_fails [OF 1 2 3 4 5] 1 6 show ?thesis by simp
qed

text \<open>
  Claim C6 as stated has the missing-tool diagnostic whenever the tool cannot be resolved
  to an executable. Here \<^verbatim>\<open>--unoconv_path\<close> is \<^verbatim>\<open>tools/unoconv\<close>, a file that exists and is
  not executable: \<^verbatim>\<open>Popen\<close> raises \<^verbatim>\<open>PermissionError\<close>, which is not a
  \<^verbatim>\<open>FileNotFoundError\<close>, and the log ends with the unexpected-error record.
\<close>

theorem spawn_failure_counterexample:
  "convert_file
     (machine [''a.odt''] [] [] (Inl (Exception ''[Errno 13] Permission denied: tools/unoconv'')))
     ''a.odt'' ''a.pdf'' (Some ''application/pdf'') ''tools/unoconv'' =
   (Inr False,
    \<lparr>log = [(INFO, ''Executing command: tools/unoconv -f pdf -o /work/a.pdf /work/a.odt''),
            (ERROR, ''An unexpected error occurred: [Errno 13] Permission denied: tools/unoconv'')],
     trace = [Popen [''tools/unoconv'', ''-f'', ''pdf'', ''-o'', ''/work/a.pdf'', ''/work/a.odt'']]\<rparr>)"
  by (simp add: run_defs)

text \<open>
  Claim C7. \<^verbatim>\<open>convert_file\<close> never lets an exception out: on every input and in every
  world it returns a boolean, and whenever its body raises, the result is \<^verbatim>\<open>False\<close> and
  one error record has been added to the log.
\<close>

theorem never_raises:
  "(\<exists>b. fst (convert_file e inp out t u) = Inr b) \<and>
   (\<forall>x s. convert_body e inp out t u = (Inl x, s) \<longrightarrow>
      fst (convert_file e inp out t u) = Inr False \<and>
      (\<exists>m. snd (convert_file e inp out t u) = logging ERROR m s))"
  by (auto simp add: convert_file_def split: prod.splits sum.splits pyexn.splits)

theorem never_raises_witness:
  "convert_body (machine [''a.odt''] [] [] (Inl (Exception ''boom''))) ''a.odt'' ''a.pdf'' (Some ''application/pdf'') ''unoconv''
     = (Inl (Exception ''boom''),
        \<lparr>log = [(INFO, ''Executing command: unoconv -f pdf -o /work/a.pdf /work/a.odt'')],
         trace = [Popen [''unoconv'', ''-f'', ''pdf'', ''-o'', ''/work/a.pdf'', ''/work/a.odt'']]\<rparr>) \<and>
   fst (convert_file (machine [''a.odt''] [] [] (Inl (Exception ''boom''))) ''a.odt'' ''a.pdf'' (Some ''application/pdf'') ''unoconv'') = Inr False"
proof -
  have h: "convert_body (machine [''a.odt''] [] [] (Inl (Exception ''boom''))) ''a.odt'' ''a.pdf'' (Some ''application/pdf'') ''unoconv''
     = (Inl (Exception ''boom''),
        \<lparr>log = [(INFO, ''Executing command: unoconv -f pdf -o /work/a.pdf /work/a.odt'')],
         trace = [Popen [''unoconv'', ''-f'', ''pdf'', ''-o'', ''/work/a.pdf'', ''/work/a.odt'']]\<rparr>)"
    by (simp add: convert_body_def infer_target_def machine_def resolved_target_def command_of_def falsy_def start_def logging_def call_def
        path_suffix_def path_name_def lstrip_dot_def)
  from never_raises [of "machine [''a.odt''] [] [] (Inl (Exception ''boom''))" "''a.odt''" "''a.pdf''" "Some ''application/pdf''" "''unoconv''"] h
  show ?thesis by simp
qed

subsection \<open>The program\<close>




subsection \<open>Child processes\<close>

text \<open>
  Claim C9, as the code has it. A run starts at most one child process, in at most one
  call to \<^verbatim>\<open>Popen\<close>. It starts one exactly when the input is a file, a target type is at
  hand, both paths resolve and \<^verbatim>\<open>Popen\<close> returns a process; then \<^verbatim>\<open>communicate()\<close> is
  called on that process next and nothing after, so the result is decided once the child
  has ended. In every other run there is no child and no \<^verbatim>\<open>communicate()\<close>: either
  \<^verbatim>\<open>Popen\<close> was not called, or its one call raised.
\<close>

theorem at_most_one_child:
  "length (spawned e (snd (convert_file e inp out t u))) \<le> 1 \<and>
   length (commands (snd (convert_file e inp out t u))) \<le> 1 \<and>
   (spawned e (snd (convert_file e inp out t u)) \<noteq> [] \<longleftrightarrow>
      is_file e inp = Inr True \<and> resolved_target e out t \<and>
      (\<exists>ia oa p. resolve e inp = Inr ia \<and> resolve e out = Inr oa \<and>
         popen e (command_of u oa ia) = Inr p)) \<and>
   (spawned e (snd (convert_file e inp out t u)) \<noteq> [] \<longrightarrow>
      (\<exists>c. trace (snd (convert_file e inp out t u)) = [Popen c, Communicate])) \<and>
   (spawned e (snd (convert_file e inp out t u)) = [] \<longrightarrow>
      trace (snd (convert_file e inp out t u)) = [] \<or>
      (\<exists>c x. trace (snd (convert_file e inp out t u)) = [Popen c] \<and> popen e c = Inl x))"
proof (cases "is_file e inp = Inr True \<and> resolved_target e out t \<and>
       (\<exists>ia. resolve e inp = Inr ia) \<and> (\<exists>oa. resolve e out = Inr oa)")
  case True
  then obtain ia oa where r: "resolve e inp = Inr ia" "resolve e out = Inr oa" by blast
  from True r have tr: "trace (snd (convert_file e inp out t u)) =
     (case popen e (command_of u oa ia) of
        Inl x \<Rightarrow> [Popen (command_of u oa ia)]
      | Inr p \<Rightarrow> [Popen (command_of u oa ia), Communicate])"
    by (simp add: file_calls)
  show ?thesis
  proof (cases "popen e (command_of u oa ia)")
    case (Inl x)
    with tr True r show ?thesis by (simp add: spawned_def commands_def)
  next
    case (Inr p)
    with tr True r show ?thesis by (auto simp add: spawned_def commands_def)
  qed
next
  case False
  then have "trace (snd (convert_file e inp out t u)) = []"
    by (rule file_commands_silent)
  with False show ?thesis by (auto simp add: spawned_def commands_def)
qed

text \<open>One child, and \<^verbatim>\<open>communicate()\<close> after \<^verbatim>\<open>Popen\<close>.\<close>

theorem at_most_one_child_witness:
  "spawned (machine [''b.docx''] [] [] (exits 0 [] []))
     (snd (convert_file (machine [''b.docx''] [] [] (exits 0 [] []))
        ''b.docx'' ''b.odt'' (Some ''application/vnd.oasis.opendocument.text'') ''soffice'')) =
     [[''soffice'', ''-f'', ''odt'', ''-o'', ''/work/b.odt'', ''/work/b.docx'']] \<and>
   trace (snd (convert_file (machine [''b.docx''] [] [] (exits 0 [] []))
      ''b.docx'' ''b.odt'' (Some ''application/vnd.oasis.opendocument.text'') ''soffice'')) =
     [Popen [''soffice'', ''-f'', ''odt'', ''-o'', ''/work/b.odt'', ''/work/b.docx''], Communicate]"
proof -
  let ?w = "machine [''b.docx''] [] [] (exits 0 [] [])"
  let ?c = "[''soffice'', ''-f'', ''odt'', ''-o'', ''/work/b.odt'', ''/work/b.docx'']"
  let ?r = "snd (convert_file ?w ''b.docx'' ''b.odt''
      (Some ''application/vnd.oasis.opendocument.text'') ''soffice'')"
  have 1: "spawned ?w ?r = [?c]"
    by (simp add: run_defs spawned_def)
  from at_most_one_child [of ?w "''b.docx''" "''b.odt''"
      "Some ''application/vnd.oasis.opendocument.text''" "''soffice''"] 1
  obtain c where 2: "trace ?r = [Popen c, Communicate]" by auto
  with 1 have "c = ?c" by (simp add: spawned_def commands_def split: if_splits sum.splits)
  with 1 2 show ?thesis by simp
qed

text \<open>
  Claim C9 as stated has exactly one child per call. Three calls with none: the input
  file is missing; no type is found for the output path; the tool is not installed, so
  that the one call to \<^verbatim>\<open>Popen\<close> raises.
\<close>

theorem at_most_one_child_counterexample:
  "spawned
     (machine [''report.odt''] [(''report.pdf'', ''application/pdf'')] [] (exits 0 [] []))
     (snd (convert_file
        (machine [''report.odt''] [(''report.pdf'', ''application/pdf'')] [] (exits 0 [] []))
        ''nothere.odt'' ''report.pdf'' None ''unoconv'')) = [] \<and>
   spawned
     (machine [''report.odt''] [(''report.pdf'', ''application/pdf'')] [] (exits 0 [] []))
     (snd (convert_file
        (machine [''report.odt''] [(''report.pdf'', ''application/pdf'')] [] (exits 0 [] []))
        ''report.odt'' ''report.unknown'' None ''unoconv'')) = [] \<and>
   spawned
     (machine [''report.odt''] [(''report.pdf'', ''application/pdf'')] []
        (Inl (FileNotFoundError ''[Errno 2] No such file or directory: unoconv'')))
     (snd (convert_file
        (machine [''report.odt''] [(''report.pdf'', ''application/pdf'')] []
           (Inl (FileNotFoundError ''[Errno 2] No such file or directory: unoconv'')))
        ''report.odt'' ''report.pdf'' None ''unoconv'')) = []"
  by (simp add: run_defs spawned_def)

subsection \<open>No validation of the extension\<close>

text \<open>
  Claim C10, as the code has it. With a non-empty explicit target type the output path is
  never looked up: for an existing input file and any output path, once both paths
  resolve, \<^verbatim>\<open>Popen\<close> is called, and the argument after \<^verbatim>\<open>-f\<close> is the empty string when
  the resolved output path has no suffix.
\<close>

theorem explicit_target_skips_validation:
  assumes "t \<noteq> []" and "is_file e inp = Inr True"
    and "resolve e inp = Inr ia" and "resolve e out = Inr oa"
  shows "commands (snd (convert_file e inp out (Some t) u)) =
       [[u, ''-f'', lstrip_dot (path_suffix oa), ''-o'', oa, ia]] \<and>
     (path_suffix oa = [] \<longrightarrow>
        commands (snd (convert_file e inp out (Some t) u)) = [[u, ''-f'', [], ''-o'', oa, ia]])"
proof -
  from assms(1) have "resolved_target e out (Some t)"
    by (simp add: resolved_target_def falsy_def)
  from file_commands [OF assms(2) this assms(3,4)] show ?thesis
    by (simp add: command_of_def lstrip_dot_def)
qed

theorem explicit_target_skips_validation_witness:
  "''application/pdf'' \<noteq> [] \<and>
   is_file (machine [''notes.odt''] [] [] (exits 0 [] [])) ''notes.odt'' = Inr True \<and>
   path_suffix ''/work/notes'' = [] \<and>
   commands (snd (convert_file (machine [''notes.odt''] [] [] (exits 0 [] []))
       ''notes.odt'' ''notes'' (Some ''application/pdf'') ''unoconv'')) =
     [[''unoconv'', ''-f'', [], ''-o'', ''/work/notes'', ''/work/notes.odt'']]"
proof -
  let ?w = "machine [''notes.odt''] [] [] (exits 0 [] [])"
  have 1: "''application/pdf'' \<noteq> []" by simp
  have 2: "is_file ?w ''notes.odt'' = Inr True" by (simp add: machine_def)
  have 3: "resolve ?w ''notes.odt'' = Inr ''/work/notes.odt''" by (simp add: machine_def)
  have 4: "resolve ?w ''notes'' = Inr ''/work/notes''" by (simp add: machine_def)
  have 5: "path_suffix ''/work/notes'' = []" by (simp add: path_suffix_def path_name_def)
  from explicit_target_skips_validation [OF 1 2 3 4, of "''unoconv''"] 2 5 show ?thesis
    by (simp add: lstrip_dot_def)
qed

text \<open>
  Claim C10 as stated has the empty string whenever the output path that was passed has
  no extension. Here \<^verbatim>\<open>latest\<close> has none and is a symbolic link to
  \<^verbatim>\<open>/srv/out/final.odt\<close>: the argument after \<^verbatim>\<open>-f\<close> is \<^verbatim>\<open>odt\<close>.
\<close>

theorem explicit_target_skips_validation_counterexample:
  "is_file (machine [''draft.odt''] [] [(''latest'', ''/srv/out/final.odt'')] (exits 0 [] []))
     ''draft.odt'' = Inr True \<and>
   path_suffix ''latest'' = [] \<and>
   commands (snd (convert_file
       (machine [''draft.odt''] [] [(''latest'', ''/srv/out/final.odt'')] (exits 0 [] []))
       ''draft.odt'' ''latest'' (Some ''application/pdf'') ''unoconv'')) =
     [[''unoconv'', ''-f'', ''odt'', ''-o'', ''/srv/out/final.odt'', ''/work/draft.odt'']]"
  by (simp add: run_defs)

end
